theory Spec2Isabelle
  imports Complex_Main
begin

section \<open>Numbers and vectors\<close>

text \<open>
  The toolkit computes with JavaScript numbers. They are modelled as exact reals: every
  statement below is about the arithmetic the code writes down, not about rounding. A
  division is only meaningful in the model where the divisor is not zero (JavaScript gives
  an infinity or NaN there, HOL gives 0); the theorems that divide assume a positive divisor.

  Positions, velocities and forces are two-component vectors of the drawing library. The
  operations used by the toolkit are modelled after the library's documented behaviour:
  \<open>mag\<close> is the Euclidean length, \<open>normalize\<close> leaves the zero vector alone, \<open>div\<close> by zero
  leaves the vector unchanged.
\<close>

record vec =
  vec_x :: real
  vec_y :: real

definition createVector :: "real \<Rightarrow> real \<Rightarrow> vec" where
  "createVector a b = \<lparr>vec_x = a, vec_y = b\<rparr>"

definition vadd :: "vec \<Rightarrow> vec \<Rightarrow> vec" where
  "vadd u v = \<lparr>vec_x = vec_x u + vec_x v, vec_y = vec_y u + vec_y v\<rparr>"

definition vsub :: "vec \<Rightarrow> vec \<Rightarrow> vec" where
  "vsub u v = \<lparr>vec_x = vec_x u - vec_x v, vec_y = vec_y u - vec_y v\<rparr>"

definition vmult :: "vec \<Rightarrow> real \<Rightarrow> vec" where
  "vmult v n = \<lparr>vec_x = vec_x v * n, vec_y = vec_y v * n\<rparr>"

definition vdiv :: "vec \<Rightarrow> real \<Rightarrow> vec" where
  "vdiv v n = (if n = 0 then v else \<lparr>vec_x = vec_x v / n, vec_y = vec_y v / n\<rparr>)"

definition vdot :: "vec \<Rightarrow> vec \<Rightarrow> real" where
  "vdot u v = vec_x u * vec_x v + vec_y u * vec_y v"

definition vmagSq :: "vec \<Rightarrow> real" where
  "vmagSq v = vec_x v * vec_x v + vec_y v * vec_y v"

definition vmag :: "vec \<Rightarrow> real" where
  "vmag v = sqrt (vmagSq v)"

definition vdist :: "vec \<Rightarrow> vec \<Rightarrow> real" where
  "vdist u v = vmag (vsub v u)"

definition vnormalize :: "vec \<Rightarrow> vec" where
  "vnormalize v = (let len = vmag v in if len \<noteq> 0 then vmult v (1 / len) else v)"


section \<open>Unit and canvas-coordinate conversions (constants/Utils.js)\<close>

text \<open>
  \<open>SCALE\<close> (pixels per metre) is imported from Config.js and \<open>CANVAS_HEIGHT\<close> is a module
  variable set by \<open>setCanvasHeight\<close>; both are parameters of the model.
\<close>

definition physicsYToScreenY :: "real \<Rightarrow> real \<Rightarrow> real \<Rightarrow> real" where
  "physicsYToScreenY SCALE CANVAS_HEIGHT physicsY = CANVAS_HEIGHT - physicsY * SCALE"

definition screenYToPhysicsY :: "real \<Rightarrow> real \<Rightarrow> real \<Rightarrow> real" where
  "screenYToPhysicsY SCALE CANVAS_HEIGHT screenY = (CANVAS_HEIGHT - screenY) / SCALE"

definition toPixels :: "real \<Rightarrow> real \<Rightarrow> real" where
  "toPixels SCALE meters = meters * SCALE"

definition toMeters :: "real \<Rightarrow> real \<Rightarrow> real" where
  "toMeters SCALE pixels = pixels / SCALE"

definition physicsToScreen :: "real \<Rightarrow> real \<Rightarrow> vec \<Rightarrow> vec" where
  "physicsToScreen SCALE CANVAS_HEIGHT physicsPos =
     createVector (toPixels SCALE (vec_x physicsPos))
                  (physicsYToScreenY SCALE CANVAS_HEIGHT (vec_y physicsPos))"

definition screenToPhysics :: "real \<Rightarrow> real \<Rightarrow> vec \<Rightarrow> vec" where
  "screenToPhysics SCALE CANVAS_HEIGHT screenPos =
     createVector (toMeters SCALE (vec_x screenPos))
                  (screenYToPhysicsY SCALE CANVAS_HEIGHT (vec_y screenPos))"


section \<open>Velocity-Verlet helper on a store of vector objects\<close>

text \<open>
  \<open>integrate\<close> receives references to vector objects and works on copies, which it changes
  in place with \<open>mult\<close> and \<open>add\<close>. The store is the list of all vector objects allocated so
  far; a reference is an index into it, and \<open>copy\<close> allocates at the end. The three
  arguments may be the same object.
\<close>

type_synonym ref = nat
type_synonym store = "vec list"

definition copy_at :: "store \<Rightarrow> ref \<Rightarrow> store \<times> ref" where
  "copy_at s a = (s @ [s ! a], length s)"

definition mult_at :: "store \<Rightarrow> ref \<Rightarrow> real \<Rightarrow> store" where
  "mult_at s a n = s[a := vmult (s ! a) n]"

definition add_at :: "store \<Rightarrow> ref \<Rightarrow> ref \<Rightarrow> store" where
  "add_at s a b = s[a := vadd (s ! a) (s ! b)]"

definition integrate :: "store \<Rightarrow> ref \<Rightarrow> ref \<Rightarrow> ref \<Rightarrow> real \<Rightarrow> store \<times> ref \<times> ref" where
  "integrate s pos vel acc dt =
     (let (s1, newPos) = copy_at s pos;
          (s2, newVel) = copy_at s1 vel;
          (s3, velDt) = copy_at s2 vel;
          s4 = mult_at s3 velDt dt;
          (s5, accDt2) = copy_at s4 acc;
          s6 = mult_at s5 accDt2 (0.5 * dt * dt);
          s7 = add_at s6 newPos velDt;
          s8 = add_at s7 newPos accDt2;
          (s9, accDt) = copy_at s8 acc;
          s10 = mult_at s9 accDt dt;
          s11 = add_at s10 newVel accDt
      in (s11, newPos, newVel))"


section \<open>Force formulas (physics/ForceCalculator.js)\<close>

text \<open>
  \<open>gravity\<close> has a default magnitude of 9.81 when the caller passes none, and an optional
  custom direction.
\<close>

definition gravity :: "real \<Rightarrow> real option \<Rightarrow> vec option \<Rightarrow> vec" where
  "gravity mass g direction =
     (let mag = mass * (case g of None \<Rightarrow> 9.81 | Some gv \<Rightarrow> gv)
      in case direction of
           Some d \<Rightarrow> vmult (vnormalize d) mag
         | None \<Rightarrow> \<lparr>vec_x = 0, vec_y = - mag\<rparr>)"

definition spring :: "real \<Rightarrow> real \<Rightarrow> real" where
  "spring displacement springConstant = - springConstant * displacement"


section \<open>Bodies (physics/PhysicsBody.js)\<close>

text \<open>
  A body owns its three state vectors: the constructor creates them or takes the vectors
  it is given, and every construction in the repository passes fresh ones. They are
  therefore values of the state record. Colours and the drawing handle play no part in the
  physics and are left out. \<open>size_m\<close> is the field \<open>size\<close> (metres).
\<close>

record body_params =
  mass :: real
  size_m :: real
  shape :: string
  restitution :: real

record body_state =
  position :: vec
  velocity :: vec
  acceleration :: vec
  rotation :: real
  angularVelocity :: real
  angularAcceleration :: real

record body_trail =
  enabled :: bool
  points :: "vec list"
  maxLength :: real

datatype body_bounds =
  CircleBounds vec real
| RectBounds vec vec

record body =
  params :: body_params
  state :: body_state
  isMoving :: bool
  isHovered :: bool
  trail :: body_trail
  bounds :: body_bounds

definition computeBounds :: "body \<Rightarrow> body_bounds" where
  "computeBounds b =
     (let pos = position (state b); sz = size_m (params b)
      in if shape (params b) = ''circle''
         then CircleBounds pos (sz / 2)
         else RectBounds (createVector (vec_x pos - sz / 2) (vec_y pos - sz / 2))
                         (createVector (vec_x pos + sz / 2) (vec_y pos + sz / 2)))"

definition applyForce :: "vec \<Rightarrow> body \<Rightarrow> body" where
  "applyForce force b =
     (let a = vdiv force (mass (params b))
      in b\<lparr>state := (state b)\<lparr>acceleration := vadd (acceleration (state b)) a\<rparr>\<rparr>)"

definition applyImpulse :: "vec \<Rightarrow> body \<Rightarrow> body" where
  "applyImpulse impulse b =
     (let deltaV = vdiv impulse (mass (params b))
      in b\<lparr>state := (state b)\<lparr>velocity := vadd (velocity (state b)) deltaV\<rparr>\<rparr>)"

text \<open>
  \<open>updateTrail\<close> pushes a copy of the position and shifts the oldest point out when the
  array is longer than \<open>maxLength\<close>. The array is not empty after the push.
\<close>

definition updateTrail :: "body \<Rightarrow> body" where
  "updateTrail b =
     (let pushed = points (trail b) @ [position (state b)];
          pts = (if real (length pushed) > maxLength (trail b) then tl pushed else pushed)
      in b\<lparr>trail := (trail b)\<lparr>points := pts\<rparr>\<rparr>)"

text \<open>
  \<open>step\<close>: the velocity is updated in place first, and the position update reads the
  velocity field after that.
\<close>

definition step :: "real \<Rightarrow> body \<Rightarrow> body" where
  "step dt b =
     (if dt \<le> 0 then b
      else
        let st = state b;
            vel1 = vadd (velocity st) (vmult (acceleration st) dt);
            pos1 = vadd (position st) (vmult vel1 dt);
            angVel1 = angularVelocity st + angularAcceleration st * dt;
            rot1 = rotation st + angVel1 * dt;
            st1 = st\<lparr>position := pos1, velocity := vel1, acceleration := createVector 0 0,
                     rotation := rot1, angularVelocity := angVel1, angularAcceleration := 0\<rparr>;
            b1 = b\<lparr>state := st1, isMoving := (vmag vel1 > 0.001)\<rparr>;
            b2 = b1\<lparr>bounds := computeBounds b1\<rparr>
        in if enabled (trail b2) then updateTrail b2 else b2)"

text \<open>
  \<open>stepVerlet\<close> returns the position before the step, or nothing when it returns early.
\<close>

definition stepVerlet :: "real \<Rightarrow> vec option \<Rightarrow> body \<Rightarrow> body \<times> vec option" where
  "stepVerlet dt previousPosition b =
     (if dt \<le> 0 then (b, None)
      else
        let st = state b;
            currentPos = position st;
            prevPos = (case previousPosition of Some q \<Rightarrow> q | None \<Rightarrow> position st);
            displacement = vsub currentPos prevPos;
            accelerationTerm = vmult (acceleration st) (dt * dt);
            pos1 = vadd (vadd (position st) displacement) accelerationTerm;
            vel1 = vdiv (vsub pos1 currentPos) dt;
            st1 = st\<lparr>position := pos1, velocity := vel1, acceleration := createVector 0 0\<rparr>;
            b1 = b\<lparr>state := st1, isMoving := (vmag vel1 > 0.001)\<rparr>;
            b2 = b1\<lparr>bounds := computeBounds b1\<rparr>
        in (if enabled (trail b2) then updateTrail b2 else b2, Some currentPos))"

definition getMomentum :: "body \<Rightarrow> vec" where
  "getMomentum b = vmult (velocity (state b)) (mass (params b))"

definition checkHover :: "real \<Rightarrow> real \<Rightarrow> real \<Rightarrow> vec \<Rightarrow> body \<Rightarrow> body \<times> bool" where
  "checkHover SCALE mouseX mouseY screenPos b =
     (let mousePx = createVector mouseX mouseY;
          sizePx = toPixels SCALE (size_m (params b));
          hov = (if shape (params b) = ''circle''
                 then vdist screenPos mousePx \<le> sizePx / 2
                 else vec_x mousePx \<ge> vec_x screenPos - sizePx / 2
                    \<and> vec_x mousePx \<le> vec_x screenPos + sizePx / 2
                    \<and> vec_y mousePx \<ge> vec_y screenPos - sizePx / 2
                    \<and> vec_y mousePx \<le> vec_y screenPos + sizePx / 2)
      in (b\<lparr>isHovered := hov\<rparr>, hov))"

definition constrainToBounds :: "real \<Rightarrow> real \<Rightarrow> real \<Rightarrow> real \<Rightarrow> body \<Rightarrow> body \<times> bool" where
  "constrainToBounds minX maxX minY maxY b =
     (let e = restitution (params b);
          pos = position (state b);
          vel = velocity (state b);
          (pos1, vel1, collided1) =
            (if vec_x pos < minX
             then (pos\<lparr>vec_x := minX\<rparr>, vel\<lparr>vec_x := vec_x vel * (- e)\<rparr>, True)
             else if vec_x pos > maxX
             then (pos\<lparr>vec_x := maxX\<rparr>, vel\<lparr>vec_x := vec_x vel * (- e)\<rparr>, True)
             else (pos, vel, False));
          (pos2, vel2, collided2) =
            (if vec_y pos1 < minY
             then (pos1\<lparr>vec_y := minY\<rparr>, vel1\<lparr>vec_y := vec_y vel1 * (- e)\<rparr>, True)
             else if vec_y pos1 > maxY
             then (pos1\<lparr>vec_y := maxY\<rparr>, vel1\<lparr>vec_y := vec_y vel1 * (- e)\<rparr>, True)
             else (pos1, vel1, collided1))
      in (b\<lparr>state := (state b)\<lparr>position := pos2, velocity := vel2\<rparr>\<rparr>, collided2))"


text \<open>
  The constructor, for the fields the model keeps: the state vectors the caller does not
  pass default to zero, the trail starts disabled and empty with a cap of 100.
\<close>

definition newPhysicsBody :: "body_params \<Rightarrow> vec \<Rightarrow> vec \<Rightarrow> body" where
  "newPhysicsBody ps pos vel =
     (let b0 = \<lparr>params = ps,
                state = \<lparr>position = pos, velocity = vel, acceleration = createVector 0 0,
                         rotation = 0, angularVelocity = 0, angularAcceleration = 0\<rparr>,
                isMoving = False, isHovered = False,
                trail = \<lparr>enabled = False, points = [], maxLength = 100\<rparr>,
                bounds = CircleBounds (createVector 0 0) 0\<rparr>
      in b0\<lparr>bounds := computeBounds b0\<rparr>)"


section \<open>Boundary collision (constants/Utils.js)\<close>

text \<open>
  \<open>collideBoundary\<close> copies position and velocity and assigns to the copies' fields; the
  inputs are not touched, so the model works on values. \<open>acc\<close> may be absent. \<open>w_m\<close> and
  \<open>h_m\<close> are the fields \<open>w\<close> and \<open>h\<close> of the bounds (metres).
\<close>

record boundary =
  w_m :: real
  h_m :: real

definition collideBoundary ::
  "vec \<Rightarrow> vec \<Rightarrow> boundary \<Rightarrow> real \<Rightarrow> real \<Rightarrow> vec option \<Rightarrow> vec \<times> vec" where
  "collideBoundary pos vel bnds radius e acc =
     (let g = (case acc of Some a \<Rightarrow> \<bar>vec_y a\<bar> | None \<Rightarrow> 0);
          ballLeftEdge = vec_x pos - radius;
          ballRightEdge = vec_x pos + radius;
          hitLeftWall = ballLeftEdge < 0;
          hitRightWall = ballRightEdge > w_m bnds;
          (newPos1, newVel1) =
            (if hitLeftWall then
               (let collisionPenetration = 0 - ballLeftEdge
                in (pos\<lparr>vec_x := radius + collisionPenetration\<rparr>,
                    vel\<lparr>vec_x := \<bar>vec_x vel\<bar> * e\<rparr>))
             else if hitRightWall then
               (let collisionPenetration = ballRightEdge - w_m bnds
                in (pos\<lparr>vec_x := w_m bnds - radius - collisionPenetration\<rparr>,
                    vel\<lparr>vec_x := - \<bar>vec_x vel\<bar> * e\<rparr>))
             else (pos, vel));
          ballTopEdge = vec_y newPos1 + radius;
          ballBottomEdge = vec_y newPos1 - radius;
          hitCeiling = ballTopEdge > h_m bnds;
          hitFloor = ballBottomEdge < 0
      in if hitCeiling then
           (let collisionPenetration = ballTopEdge - h_m bnds
            in (newPos1\<lparr>vec_y := h_m bnds - radius - collisionPenetration\<rparr>,
                newVel1\<lparr>vec_y := - \<bar>vec_y newVel1\<bar> * e\<rparr>))
         else if hitFloor then
           (let collisionPenetration = 0 - ballBottomEdge;
                velSquared = (vec_y newVel1)\<^sup>2;
                liftDistance = 2 * collisionPenetration;
                work = (if g > 0 then 2 * g * liftDistance else 0)
            in if velSquared > work then
                 (let vNew = sqrt (velSquared - work)
                  in (newPos1\<lparr>vec_y := radius + collisionPenetration\<rparr>,
                      newVel1\<lparr>vec_y := vNew * e\<rparr>))
               else (newPos1\<lparr>vec_y := radius\<rparr>, newVel1\<lparr>vec_y := 0\<rparr>))
         else (newPos1, newVel1))"


section \<open>Circle-circle collision of the multi-body demo\<close>

text \<open>
  The body of the double loop in the demo's \<open>draw\<close>, for one pair of bodies: when the
  centres are closer than the sum of the radii the bodies are pushed apart along the
  normal, and unless the velocity along the normal is negative an impulse is applied to
  each body.
\<close>

definition resolveCollision :: "body \<Rightarrow> body \<Rightarrow> body \<times> body" where
  "resolveCollision body1 body2 =
     (let dist = vdist (position (state body1)) (position (state body2));
          minDist = (size_m (params body1) + size_m (params body2)) / 2
      in if dist < minDist then
           (let normal = vnormalize (vsub (position (state body2)) (position (state body1)));
                overlap = minDist - dist;
                b1 = body1\<lparr>state := (state body1)
                       \<lparr>position := vsub (position (state body1)) (vmult normal (overlap / 2))\<rparr>\<rparr>;
                b2 = body2\<lparr>state := (state body2)
                       \<lparr>position := vadd (position (state body2)) (vmult normal (overlap / 2))\<rparr>\<rparr>;
                relVel = vsub (velocity (state b2)) (velocity (state b1));
                velAlongNormal = vdot relVel normal
            in if velAlongNormal < 0 then (b1, b2)
               else
                 (let rest = (restitution (params b1) + restitution (params b2)) / 2;
                      impulse = (- (1 + rest) * velAlongNormal)
                                / (1 / mass (params b1) + 1 / mass (params b2))
                  in (applyImpulse (vmult normal (- impulse)) b1,
                      applyImpulse (vmult normal impulse) b2)))
         else (body1, body2))"

text \<open>The two conditions under which the impulse branch is reached, and its normal.\<close>

definition collisionNormal :: "body \<Rightarrow> body \<Rightarrow> vec" where
  "collisionNormal body1 body2 =
     vnormalize (vsub (position (state body2)) (position (state body1)))"

definition impulseFires :: "body \<Rightarrow> body \<Rightarrow> bool" where
  "impulseFires body1 body2 =
     (vdist (position (state body1)) (position (state body2))
        < (size_m (params body1) + size_m (params body2)) / 2
      \<and> \<not> vdot (vsub (velocity (state body2)) (velocity (state body1)))
                (collisionNormal body1 body2) < 0)"


section \<open>Drag interaction (physics/DragController.js)\<close>

text \<open>
  The controller keeps a reference to the dragged body; with the bodies held in a list the
  reference is the body's index. A caller may pass one body instead of an array. The
  bodies here are \<open>PhysicsBody\<close> objects: they have a position, a velocity and
  \<open>toScreenPosition\<close>, and no plane state.
\<close>

record drag_state =
  active :: bool
  targetBody :: "nat option"
  offset :: vec
  initialPosition :: "vec option"

record drag_config =
  snapBack :: bool
  smoothing :: real

record drag_controller =
  dstate :: drag_state
  config :: drag_config

datatype bodies_arg = OneBody body | BodyArray "body list"

definition newDragController :: "bool \<Rightarrow> real \<Rightarrow> drag_controller" where
  "newDragController sb sm =
     \<lparr>dstate = \<lparr>active = False, targetBody = None, offset = createVector 0 0,
                initialPosition = None\<rparr>,
      config = \<lparr>snapBack = sb, smoothing = sm\<rparr>\<rparr>"

definition startDrag ::
  "real \<Rightarrow> real \<Rightarrow> nat \<Rightarrow> body \<Rightarrow> real \<Rightarrow> real \<Rightarrow> drag_controller \<Rightarrow> drag_controller \<times> body" where
  "startDrag SCALE CANVAS_HEIGHT r b mouseX mouseY c =
     (let st1 = (dstate c)\<lparr>active := True, targetBody := Some r\<rparr>;
          st2 = (if snapBack (config c)
                 then st1\<lparr>initialPosition := Some (position (state b))\<rparr> else st1);
          screenPos = physicsToScreen SCALE CANVAS_HEIGHT (position (state b));
          st3 = st2\<lparr>offset := createVector (vec_x screenPos - mouseX) (vec_y screenPos - mouseY)\<rparr>;
          b1 = b\<lparr>state := (state b)\<lparr>velocity := createVector 0 0\<rparr>\<rparr>
      in (c\<lparr>dstate := st3\<rparr>, b1))"

text \<open>
  The loop of \<open>handlePress\<close>: \<open>isHit\<close> is initialised to false and the hit test that would
  set it is commented out in the source, so the model has no assignment to it either.
  \<open>seen\<close> holds the bodies already visited.
\<close>

fun handlePress_loop ::
  "real \<Rightarrow> real \<Rightarrow> real \<Rightarrow> real \<Rightarrow> drag_controller \<Rightarrow> body list \<Rightarrow> body list
     \<Rightarrow> drag_controller \<times> body list \<times> bool" where
  "handlePress_loop SCALE CANVAS_HEIGHT mouseX mouseY c seen [] = (c, seen, False)"
| "handlePress_loop SCALE CANVAS_HEIGHT mouseX mouseY c seen (b # rest) =
     (let isHit = False
      in if isHit then
           (let (c1, b1) = startDrag SCALE CANVAS_HEIGHT (length seen) b mouseX mouseY c
            in (c1, seen @ b1 # rest, True))
         else handlePress_loop SCALE CANVAS_HEIGHT mouseX mouseY c (seen @ [b]) rest)"

definition handlePress ::
  "real \<Rightarrow> real \<Rightarrow> real \<Rightarrow> real \<Rightarrow> bodies_arg \<Rightarrow> drag_controller
     \<Rightarrow> drag_controller \<times> body list \<times> bool" where
  "handlePress SCALE CANVAS_HEIGHT mouseX mouseY arg c =
     handlePress_loop SCALE CANVAS_HEIGHT mouseX mouseY c []
       (case arg of OneBody b \<Rightarrow> [b] | BodyArray bs \<Rightarrow> bs)"

definition isDragging :: "drag_controller \<Rightarrow> bool" where
  "isDragging c = active (dstate c)"

definition getDraggedBody :: "drag_controller \<Rightarrow> nat option" where
  "getDraggedBody c = targetBody (dstate c)"


section \<open>Example inputs\<close>

text \<open>
  A circular body as the demos construct it, with the given mass, diameter and
  restitution.
\<close>

definition ball :: "real \<Rightarrow> real \<Rightarrow> real \<Rightarrow> vec \<Rightarrow> vec \<Rightarrow> body" where
  "ball m d e pos vel =
     newPhysicsBody \<lparr>mass = m, size_m = d, shape = ''circle'', restitution = e\<rparr> pos vel"

lemmas vec_defs = createVector_def vadd_def vsub_def vmult_def vdiv_def vdot_def
  vmagSq_def vmag_def vdist_def vnormalize_def

lemmas ball_defs = ball_def newPhysicsBody_def computeBounds_def Let_def


section \<open>Euler stepping\<close>

text \<open>
  Claim C1, as the code has it. For every body and every dt > 0, \<open>step\<close> sets the velocity
  to the old velocity plus acceleration*dt, moves the position by the updated velocity
  times dt (so the new position is the old position plus (old velocity + acceleration*dt)*dt),
  and resets the linear acceleration to zero.
\<close>

theorem step_euler_update:
  assumes "0 < dt"
  shows "velocity (state (step dt b))
           = vadd (velocity (state b)) (vmult (acceleration (state b)) dt)
       \<and> position (state (step dt b))
           = vadd (position (state b))
                  (vmult (vadd (velocity (state b)) (vmult (acceleration (state b)) dt)) dt)
       \<and> acceleration (state (step dt b)) = createVector 0 0"
  using assms by (simp add: step_def Let_def updateTrail_def)

theorem step_euler_update_witness:
  "(0::real) < 1
   \<and> velocity (state (step 1 (applyForce (createVector 1 0)
         (ball 1 1 1 (createVector 0 0) (createVector 0 0))))) = createVector 1 0
   \<and> position (state (step 1 (applyForce (createVector 1 0)
         (ball 1 1 1 (createVector 0 0) (createVector 0 0))))) = createVector 1 0
   \<and> acceleration (state (step 1 (applyForce (createVector 1 0)
         (ball 1 1 1 (createVector 0 0) (createVector 0 0))))) = createVector 0 0"
  using step_euler_update
    [of 1 "applyForce (createVector 1 0) (ball 1 1 1 (createVector 0 0) (createVector 0 0))"]
  by (simp add: applyForce_def ball_defs vec_defs)

text \<open>
  A body at rest at the origin with unit mass, after a unit force along x, stepped by
  dt = 1: the old velocity is zero, so "old position plus old velocity*dt" is the origin,
  but the body is at (1, 0).
\<close>

theorem step_explicit_euler_counterexample:
  "(0::real) < 1
   \<and> position (state (step 1 (applyForce (createVector 1 0)
         (ball 1 1 1 (createVector 0 0) (createVector 0 0)))))
     \<noteq> vadd (position (state (applyForce (createVector 1 0)
                  (ball 1 1 1 (createVector 0 0) (createVector 0 0)))))
             (vmult (velocity (state (applyForce (createVector 1 0)
                  (ball 1 1 1 (createVector 0 0) (createVector 0 0))))) 1)"
  by (simp add: step_def applyForce_def ball_defs vec_defs)


section \<open>Velocity-Verlet helper\<close>

text \<open>
  Claim C2. For all references to live vectors (possibly the same object) and every dt,
  \<open>integrate\<close> returns a new position equal to pos + vel*dt + acc*(0.5*dt*dt) and a new
  velocity equal to vel + acc*dt, both in newly allocated objects, and every vector that
  existed before the call, the three inputs among them, has the value it had.
\<close>

theorem integrate_verlet:
  assumes "pos < length s" "vel < length s" "acc < length s"
  shows "case integrate s pos vel acc dt of (s', newPos, newVel) \<Rightarrow>
           s' ! newPos
             = vadd (vadd (s ! pos) (vmult (s ! vel) dt)) (vmult (s ! acc) (0.5 * dt * dt))
         \<and> s' ! newVel = vadd (s ! vel) (vmult (s ! acc) dt)
         \<and> (\<forall>a < length s. s' ! a = s ! a)
         \<and> length s \<le> newPos \<and> length s \<le> newVel \<and> newPos \<noteq> newVel"
  using assms
  by (simp add: integrate_def copy_at_def mult_at_def add_at_def Let_def nth_append
        nth_list_update)

theorem integrate_verlet_witness:
  "(0::nat) < length [createVector 1 2, createVector 3 4, createVector 5 6]
   \<and> (1::nat) < length [createVector 1 2, createVector 3 4, createVector 5 6]
   \<and> (2::nat) < length [createVector 1 2, createVector 3 4, createVector 5 6]
   \<and> (case integrate [createVector 1 2, createVector 3 4, createVector 5 6] 0 1 2 2 of
        (s', newPos, newVel) \<Rightarrow>
          s' ! newPos = createVector 17 22 \<and> s' ! newVel = createVector 13 16
        \<and> s' ! 0 = createVector 1 2 \<and> s' ! 1 = createVector 3 4 \<and> s' ! 2 = createVector 5 6)"
  using integrate_verlet [of 0 "[createVector 1 2, createVector 3 4, createVector 5 6]" 1 2 2]
  by (simp add: integrate_def copy_at_def mult_at_def add_at_def Let_def createVector_def
        vadd_def vmult_def)


section \<open>Momentum in a circle-circle collision\<close>

lemma impulse_recovered:
  assumes "m \<noteq> 0"
  shows "vmult (vsub (vadd v (vdiv J m)) v) m = J"
  using assms by (simp add: vmult_def vsub_def vadd_def vdiv_def)

lemma impulse_pair_momentum:
  assumes "m1 \<noteq> 0" "m2 \<noteq> 0"
  shows "vadd (vmult (vadd v1 (vdiv (vmult n (- j)) m1)) m1)
              (vmult (vadd v2 (vdiv (vmult n j) m2)) m2)
         = vadd (vmult v1 m1) (vmult v2 m2)"
  using assms by (simp add: vmult_def vadd_def vdiv_def field_simps)

text \<open>
  Claim C3. When the impulse branch is reached for two bodies of positive mass, the
  momentum each body gains is a multiple of the collision normal, the two multiples are
  j and -j for one number j, the masses are unchanged, and the total momentum
  m1*v1 + m2*v2 after the call equals the total before it.
\<close>

theorem collision_momentum:
  assumes m1: "0 < mass (params body1)" and m2: "0 < mass (params body2)"
    and fires: "impulseFires body1 body2"
  shows "case resolveCollision body1 body2 of (b1', b2') \<Rightarrow>
      (\<exists>j. vmult (vsub (velocity (state b1')) (velocity (state body1))) (mass (params body1))
              = vmult (collisionNormal body1 body2) (- j)
          \<and> vmult (vsub (velocity (state b2')) (velocity (state body2))) (mass (params body2))
              = vmult (collisionNormal body1 body2) j)
    \<and> mass (params b1') = mass (params body1) \<and> mass (params b2') = mass (params body2)
    \<and> vadd (getMomentum b1') (getMomentum b2') = vadd (getMomentum body1) (getMomentum body2)"
proof -
  define n where "n = collisionNormal body1 body2"
  define minDist where "minDist = (size_m (params body1) + size_m (params body2)) / 2"
  define overlap where
    "overlap = minDist - vdist (position (state body1)) (position (state body2))"
  define b1 where "b1 = body1\<lparr>state := (state body1)
      \<lparr>position := vsub (position (state body1)) (vmult n (overlap / 2))\<rparr>\<rparr>"
  define b2 where "b2 = body2\<lparr>state := (state body2)
      \<lparr>position := vadd (position (state body2)) (vmult n (overlap / 2))\<rparr>\<rparr>"
  define j where "j = (- (1 + (restitution (params body1) + restitution (params body2)) / 2)
        * vdot (vsub (velocity (state body2)) (velocity (state body1))) n)
      / (1 / mass (params body1) + 1 / mass (params body2))"
  have res: "resolveCollision body1 body2
               = (applyImpulse (vmult n (- j)) b1, applyImpulse (vmult n j) b2)"
    using fires
    by (simp add: resolveCollision_def impulseFires_def collisionNormal_def Let_def
          n_def minDist_def overlap_def b1_def b2_def j_def)
  have v1: "velocity (state (applyImpulse (vmult n (- j)) b1))
              = vadd (velocity (state body1)) (vdiv (vmult n (- j)) (mass (params body1)))"
    by (simp add: applyImpulse_def b1_def)
  have v2: "velocity (state (applyImpulse (vmult n j) b2))
              = vadd (velocity (state body2)) (vdiv (vmult n j) (mass (params body2)))"
    by (simp add: applyImpulse_def b2_def)
  have p1: "params (applyImpulse (vmult n (- j)) b1) = params body1"
    by (simp add: applyImpulse_def b1_def)
  have p2: "params (applyImpulse (vmult n j) b2) = params body2"
    by (simp add: applyImpulse_def b2_def)
  have i1: "vmult (vsub (velocity (state (applyImpulse (vmult n (- j)) b1)))
                        (velocity (state body1)))
              (mass (params body1)) = vmult n (- j)"
    using m1 by (simp add: v1 impulse_recovered)
  have i2: "vmult (vsub (velocity (state (applyImpulse (vmult n j) b2)))
                        (velocity (state body2)))
              (mass (params body2)) = vmult n j"
    using m2 by (simp add: v2 impulse_recovered)
  have mom: "vadd (getMomentum (applyImpulse (vmult n (- j)) b1))
                  (getMomentum (applyImpulse (vmult n j) b2))
             = vadd (getMomentum body1) (getMomentum body2)"
    using m1 m2 by (simp add: getMomentum_def v1 v2 p1 p2 impulse_pair_momentum)
  show ?thesis
    unfolding res n_def [symmetric]
    using i1 i2 mom by (auto simp: p1 p2)
qed

lemma collision_example_fires:
  "impulseFires (ball 2 4 1 (createVector 0 0) (createVector 0 0))
                (ball 3 4 1 (createVector 1 0) (createVector 1 0))"
  by (simp add: impulseFires_def collisionNormal_def ball_defs vec_defs)

theorem collision_momentum_witness:
  "0 < mass (params (ball 2 4 1 (createVector 0 0) (createVector 0 0)))
   \<and> 0 < mass (params (ball 3 4 1 (createVector 1 0) (createVector 1 0)))
   \<and> impulseFires (ball 2 4 1 (createVector 0 0) (createVector 0 0))
                   (ball 3 4 1 (createVector 1 0) (createVector 1 0))
   \<and> (case resolveCollision (ball 2 4 1 (createVector 0 0) (createVector 0 0))
                            (ball 3 4 1 (createVector 1 0) (createVector 1 0)) of
        (b1', b2') \<Rightarrow>
          vadd (getMomentum b1') (getMomentum b2') = createVector 3 0
        \<and> vadd (getMomentum (ball 2 4 1 (createVector 0 0) (createVector 0 0)))
               (getMomentum (ball 3 4 1 (createVector 1 0) (createVector 1 0)))
            = createVector 3 0)"
proof -
  have ms: "0 < mass (params (ball 2 4 1 (createVector 0 0) (createVector 0 0)))"
           "0 < mass (params (ball 3 4 1 (createVector 1 0) (createVector 1 0)))"
    by (simp_all add: ball_defs)
  have before: "vadd (getMomentum (ball 2 4 1 (createVector 0 0) (createVector 0 0)))
                     (getMomentum (ball 3 4 1 (createVector 1 0) (createVector 1 0)))
                = createVector 3 0"
    by (simp add: getMomentum_def ball_defs vec_defs)
  show ?thesis
    using collision_momentum [OF ms collision_example_fires] ms collision_example_fires before
    by (auto split: prod.splits)
qed


section \<open>Boundary collision\<close>

text \<open>
  On each axis the first branch that applies is the one taken: the left wall before the
  right wall, the ceiling before the floor. \<open>g\<close> is the magnitude of the vertical
  acceleration, or 0 when no acceleration is passed.
\<close>

lemma collideBoundary_branches:
  assumes "0 \<le> e"
  shows "case collideBoundary pos vel bnds r e acc of (newPos, newVel) \<Rightarrow>
      (vec_x pos - r < 0 \<longrightarrow> 0 \<le> vec_x newVel)
    \<and> (vec_x pos + r > w_m bnds \<and> \<not> vec_x pos - r < 0 \<longrightarrow> vec_x newVel \<le> 0)
    \<and> (vec_y pos + r > h_m bnds \<longrightarrow> vec_y newVel \<le> 0)
    \<and> (vec_y pos - r < 0 \<and> \<not> vec_y pos + r > h_m bnds
         \<and> (vec_y vel)\<^sup>2
             \<le> 2 * (case acc of Some a \<Rightarrow> \<bar>vec_y a\<bar> | None \<Rightarrow> 0) * (2 * (0 - (vec_y pos - r)))
        \<longrightarrow> vec_y newPos = r \<and> vec_y newVel = 0)"
  using assms
  by (auto simp: collideBoundary_def Let_def mult_nonneg_nonpos2 mult_le_0_iff
           split: option.splits)

text \<open>
  Claim C4. For a ball of radius r that fits in a box of width w and height h (2r <= w and
  2r <= h) and a restitution that is not negative: a ball that overlapped the left wall
  leaves with horizontal velocity >= 0; one that overlapped the right wall leaves with
  horizontal velocity <= 0; one that overlapped the ceiling leaves with vertical velocity
  <= 0; and one that overlapped the floor with squared vertical speed at most
  2*g*(2*penetration) is placed at y = r with vertical velocity 0.
\<close>

theorem collideBoundary_reflects:
  assumes "0 \<le> e" and "2 * r \<le> w_m bnds" and "2 * r \<le> h_m bnds"
  shows "case collideBoundary pos vel bnds r e acc of (newPos, newVel) \<Rightarrow>
      (vec_x pos - r < 0 \<longrightarrow> 0 \<le> vec_x newVel)
    \<and> (vec_x pos + r > w_m bnds \<longrightarrow> vec_x newVel \<le> 0)
    \<and> (vec_y pos + r > h_m bnds \<longrightarrow> vec_y newVel \<le> 0)
    \<and> (vec_y pos - r < 0
         \<and> (vec_y vel)\<^sup>2
             \<le> 2 * (case acc of Some a \<Rightarrow> \<bar>vec_y a\<bar> | None \<Rightarrow> 0) * (2 * (0 - (vec_y pos - r)))
        \<longrightarrow> vec_y newPos = r \<and> vec_y newVel = 0)"
proof -
  have x_excl: "vec_x pos + r > w_m bnds \<Longrightarrow> \<not> vec_x pos - r < 0"
    using assms(2) by linarith
  have y_excl: "vec_y pos - r < 0 \<Longrightarrow> \<not> vec_y pos + r > h_m bnds"
    using assms(3) by linarith
  show ?thesis
    using collideBoundary_branches
            [OF assms(1), where pos = pos and vel = vel and bnds = bnds and r = r and acc = acc]
          x_excl y_excl
    by (auto split: prod.splits)
qed

text \<open>
  Two balls of radius 1 in a 10 by 10 box with restitution 1/2: one in the upper left
  corner over the left wall and the ceiling, one in the lower right corner over the right
  wall and sinking slowly into the floor under gravity 10.
\<close>

theorem collideBoundary_reflects_witness:
  "(0::real) \<le> 1/2
   \<and> 2 * (1::real) \<le> w_m \<lparr>w_m = 10, h_m = 10\<rparr>
   \<and> 2 * (1::real) \<le> h_m \<lparr>w_m = 10, h_m = 10\<rparr>
   \<and> vec_x (createVector (1/2) (19/2)) - 1 < 0
   \<and> vec_y (createVector (1/2) (19/2)) + 1 > h_m \<lparr>w_m = 10, h_m = 10\<rparr>
   \<and> collideBoundary (createVector (1/2) (19/2)) (createVector (-2) 4)
        \<lparr>w_m = 10, h_m = 10\<rparr> 1 (1/2) None
       = (createVector (3/2) (17/2), createVector 1 (-2))
   \<and> vec_x (createVector (19/2) (1/2)) + 1 > w_m \<lparr>w_m = 10, h_m = 10\<rparr>
   \<and> vec_y (createVector (19/2) (1/2)) - 1 < 0
   \<and> (vec_y (createVector 2 (-1)))\<^sup>2
        \<le> 2 * \<bar>vec_y (createVector 0 (-10))\<bar> * (2 * (0 - (vec_y (createVector (19/2) (1/2)) - 1)))
   \<and> collideBoundary (createVector (19/2) (1/2)) (createVector 2 (-1))
        \<lparr>w_m = 10, h_m = 10\<rparr> 1 (1/2) (Some (createVector 0 (-10)))
       = (createVector (17/2) 1, createVector (-1) 0)"
  using collideBoundary_reflects
          [where e = "1/2" and pos = "createVector (1/2) (19/2)" and r = 1
             and vel = "createVector (-2) 4" and bnds = "\<lparr>w_m = 10, h_m = 10\<rparr>"
             and acc = None]
        collideBoundary_reflects
          [where e = "1/2" and pos = "createVector (19/2) (1/2)" and r = 1
             and vel = "createVector 2 (-1)" and bnds = "\<lparr>w_m = 10, h_m = 10\<rparr>"
             and acc = "Some (createVector 0 (-10))"]
  by (simp add: collideBoundary_def createVector_def Let_def)


section \<open>Pressing on a body\<close>

lemma handlePress_loop_never_hits:
  "handlePress_loop SCALE H mx my c seen bs = (c, seen @ bs, False)"
  by (induction bs arbitrary: seen) simp_all

lemma handlePress_never_hits:
  "handlePress SCALE H mx my (BodyArray bs) c = (c, bs, False)"
  "handlePress SCALE H mx my (OneBody b) c = (c, [b], False)"
  by (simp_all add: handlePress_def handlePress_loop_never_hits)

text \<open>What \<open>startDrag\<close> does when it is called, as the plane controller's press does.\<close>

lemma startDrag_effects:
  "isDragging (fst (startDrag SCALE H r b mx my c))
   \<and> getDraggedBody (fst (startDrag SCALE H r b mx my c)) = Some r
   \<and> velocity (state (snd (startDrag SCALE H r b mx my c))) = createVector 0 0"
  by (simp add: startDrag_def isDragging_def getDraggedBody_def Let_def)

text \<open>
  Claim C5 at a press that hits. With 100 pixels per metre on a canvas 600 pixels high, a
  circular body of diameter 1 at (1, 1) moving at (3, 4) is drawn at pixel (100, 500). A
  press at that pixel is on the body (\<open>checkHover\<close> says so), yet \<open>handlePress\<close> returns
  false, the controller stays inactive with no dragged body, and the body keeps its
  velocity.
\<close>

theorem handlePress_ignores_hit:
  "snd (checkHover 100 100 500
          (physicsToScreen 100 600
             (position (state (ball 1 1 1 (createVector 1 1) (createVector 3 4)))))
          (ball 1 1 1 (createVector 1 1) (createVector 3 4)))
   \<and> (case handlePress 100 600 100 500
              (BodyArray [ball 1 1 1 (createVector 1 1) (createVector 3 4)])
              (newDragController False 0) of
        (c', bodies', pressed) \<Rightarrow>
            \<not> pressed \<and> \<not> isDragging c' \<and> getDraggedBody c' = None
          \<and> velocity (state (bodies' ! 0)) = createVector 3 4)"
  by (simp add: handlePress_never_hits checkHover_def physicsToScreen_def toPixels_def
        physicsYToScreenY_def isDragging_def getDraggedBody_def newDragController_def
        ball_defs vec_defs)


section \<open>Conversions are mutually inverse\<close>

text \<open>
  Claim C6. For a positive scale and any canvas height, converting a length to pixels and
  back gives the length again, and converting a physics height to a screen height and back
  gives the physics height again.
\<close>

theorem conversions_inverse:
  assumes "0 < SCALE"
  shows "toMeters SCALE (toPixels SCALE m) = m
       \<and> screenYToPhysicsY SCALE H (physicsYToScreenY SCALE H y) = y"
  using assms
  by (simp add: toMeters_def toPixels_def screenYToPhysicsY_def physicsYToScreenY_def)

theorem conversions_inverse_witness:
  "(0::real) < 100 \<and> toMeters 100 (toPixels 100 2.5) = 2.5
     \<and> screenYToPhysicsY 100 600 (physicsYToScreenY 100 600 1.5) = 1.5"
  using conversions_inverse [of 100 "2.5" 600 "1.5"] by simp


section \<open>Weight and Hooke's law\<close>

text \<open>
  Claim C7. Without a custom direction, \<open>gravity\<close> called with mass m and magnitude g
  returns the vector (0, -(m*g)); \<open>spring\<close> called with displacement x and constant k
  returns -k*x.
\<close>

theorem gravity_spring_formulas:
  "gravity m (Some g) None = \<lparr>vec_x = 0, vec_y = - (m * g)\<rparr>
     \<and> spring x k = - k * x"
  by (simp add: gravity_def spring_def)


section \<open>Steps of no duration\<close>

text \<open>
  Claim C8. For every body and every dt <= 0, \<open>step\<close> and \<open>stepVerlet\<close> return at once:
  the body, with all its fields, is the one passed in, and \<open>stepVerlet\<close> returns no
  position.
\<close>

theorem step_nonpositive_noop:
  assumes "dt \<le> 0"
  shows "step dt b = b \<and> stepVerlet dt prev b = (b, None)"
  using assms by (simp add: step_def stepVerlet_def)

theorem step_nonpositive_noop_witness:
  "(-1::real) \<le> 0
   \<and> step (-1) (ball 1 1 1 (createVector 0 0) (createVector 1 1))
       = ball 1 1 1 (createVector 0 0) (createVector 1 1)
   \<and> stepVerlet (-1) (Some (createVector 2 2)) (ball 1 1 1 (createVector 0 0) (createVector 1 1))
       = (ball 1 1 1 (createVector 0 0) (createVector 1 1), None)"
  using step_nonpositive_noop
          [of "-1" "ball 1 1 1 (createVector 0 0) (createVector 1 1)" "Some (createVector 2 2)"]
  by simp


section \<open>Clamping to bounds\<close>

text \<open>
  Claim C9. For bounds with minX <= maxX and minY <= maxY, after \<open>constrainToBounds\<close> the
  position lies within the bounds on both axes, the result is true exactly when the
  position was outside the bounds on some axis, and on each axis that was clamped the
  velocity component is the old one times minus the restitution.
\<close>

theorem constrainToBounds_clamps:
  assumes "minX \<le> maxX" "minY \<le> maxY"
  shows "case constrainToBounds minX maxX minY maxY b of (b', collided) \<Rightarrow>
      minX \<le> vec_x (position (state b')) \<and> vec_x (position (state b')) \<le> maxX
    \<and> minY \<le> vec_y (position (state b')) \<and> vec_y (position (state b')) \<le> maxY
    \<and> (collided \<longleftrightarrow>
         (vec_x (position (state b)) < minX \<or> vec_x (position (state b)) > maxX
          \<or> vec_y (position (state b)) < minY \<or> vec_y (position (state b)) > maxY))
    \<and> ((vec_x (position (state b)) < minX \<or> vec_x (position (state b)) > maxX)
          \<longrightarrow> vec_x (velocity (state b'))
                = vec_x (velocity (state b)) * (- restitution (params b)))
    \<and> ((vec_y (position (state b)) < minY \<or> vec_y (position (state b)) > maxY)
          \<longrightarrow> vec_y (velocity (state b'))
                = vec_y (velocity (state b)) * (- restitution (params b)))"
  using assms
  by (auto simp: constrainToBounds_def Let_def)

theorem constrainToBounds_clamps_witness:
  "(0::real) \<le> 4 \<and> (0::real) \<le> 4
   \<and> vec_x (position (state (ball 1 1 (1/2) (createVector 5 (-1)) (createVector 3 (-2))))) > 4
   \<and> vec_y (position (state (ball 1 1 (1/2) (createVector 5 (-1)) (createVector 3 (-2))))) < 0
   \<and> (case constrainToBounds 0 4 0 4 (ball 1 1 (1/2) (createVector 5 (-1)) (createVector 3 (-2))) of
        (b', collided) \<Rightarrow>
             position (state b') = createVector 4 0
           \<and> velocity (state b') = createVector (- 3/2) 1
           \<and> collided)"
  using constrainToBounds_clamps
          [of 0 4 0 4 "ball 1 1 (1/2) (createVector 5 (-1)) (createVector 3 (-2))"]
  by (simp add: constrainToBounds_def ball_defs vec_defs)


section \<open>The trail stays within its cap\<close>

text \<open>
  Claim C10. If the trail holds at most \<open>maxLength\<close> points before \<open>updateTrail\<close>, it
  holds at most \<open>maxLength\<close> points after it, and the same is true of \<open>step\<close> for every
  dt, with the trail enabled or not. \<open>updateTrail\<close> appends the current position and drops
  the oldest point when the array has grown past the cap.
\<close>

theorem trail_bounded:
  assumes "real (length (points (trail b))) \<le> maxLength (trail b)"
  shows "real (length (points (trail (updateTrail b)))) \<le> maxLength (trail (updateTrail b))
       \<and> real (length (points (trail (step dt b)))) \<le> maxLength (trail (step dt b))
       \<and> points (trail (updateTrail b))
           = (if real (length (points (trail b))) + 1 > maxLength (trail b)
              then tl (points (trail b) @ [position (state b)])
              else points (trail b) @ [position (state b)])"
  using assms by (auto simp: updateTrail_def step_def Let_def)

theorem trail_bounded_witness:
  "real (length (points (trail
      ((ball 1 1 1 (createVector 3 4) (createVector 1 0))
         \<lparr>trail := \<lparr>enabled = True, points = [createVector 0 0, createVector 1 1],
                    maxLength = 2\<rparr>\<rparr>))))
     \<le> maxLength (trail
      ((ball 1 1 1 (createVector 3 4) (createVector 1 0))
         \<lparr>trail := \<lparr>enabled = True, points = [createVector 0 0, createVector 1 1],
                    maxLength = 2\<rparr>\<rparr>))
   \<and> points (trail (updateTrail
      ((ball 1 1 1 (createVector 3 4) (createVector 1 0))
         \<lparr>trail := \<lparr>enabled = True, points = [createVector 0 0, createVector 1 1],
                    maxLength = 2\<rparr>\<rparr>)))
     = [createVector 1 1, createVector 3 4]
   \<and> points (trail (step 1
      ((ball 1 1 1 (createVector 3 4) (createVector 1 0))
         \<lparr>trail := \<lparr>enabled = True, points = [createVector 0 0, createVector 1 1],
                    maxLength = 2\<rparr>\<rparr>)))
     = [createVector 1 1, createVector 4 4]"
  using trail_bounded
          [of "(ball 1 1 1 (createVector 3 4) (createVector 1 0))
                 \<lparr>trail := \<lparr>enabled = True, points = [createVector 0 0, createVector 1 1],
                            maxLength = 2\<rparr>\<rparr>" 1]
  by (simp add: updateTrail_def step_def ball_defs createVector_def vadd_def vmult_def)

end
